theory Spec2Isabelle
  imports Complex_Main
begin

section \<open>Head-tracking audio balancer\<close>

text \<open>
  A shallow embedding of \<^verbatim>\<open>HeadTrackingAudioBalancer\<close> (head_track_audio.py) and of
  the balance computation of \<^verbatim>\<open>VekloMenubarApp\<close> (veklo_menubar_app.py).

  Python integers are \<^typ>\<open>int\<close>. Python floats are modelled by \<^typ>\<open>real\<close>: every
  float operation is taken exactly, unless a rounding operator is passed explicitly
  (section on binary64 below). A raised exception is the left summand of a sum type.
\<close>

subsection \<open>Errors and the object state\<close>

datatype py_error = ZeroDivisionError | OtherError

text \<open>The fields of \<^verbatim>\<open>HeadTrackingAudioBalancer.__init__\<close> that the control loop uses.\<close>

record balancer =
  running :: bool
  last_balance_update :: real
  update_frequency :: real
  show_preview :: bool
  calibrated :: bool
  calibration_center_x :: "int option"
  sensitivity :: real
  original_system_balance :: "int option"
  use_eqmac :: bool
  last_face_position :: "int option"
  use_cartoon_filter :: bool

text \<open>\<^verbatim>\<open>__init__\<close>; the argument is the value of \<^verbatim>\<open>time.time()\<close> at construction.\<close>

definition init :: "real \<Rightarrow> balancer" where
  "init t0 = \<lparr> running = True, last_balance_update = t0, update_frequency = 2 / 10,
      show_preview = True, calibrated = False, calibration_center_x = None,
      sensitivity = 8 / 10, original_system_balance = None, use_eqmac = True,
      last_face_position = None, use_cartoon_filter = True \<rparr>"

subsection \<open>The balance mapper\<close>

text \<open>The centre that \<^verbatim>\<open>calculate_audio_balance\<close> uses (lines 91-94).\<close>

definition center_position :: "balancer \<Rightarrow> int \<Rightarrow> real" where
  "center_position st frame_width =
     (case (calibrated st, calibration_center_x st) of
        (True, Some c) \<Rightarrow> real_of_int c
      | _ \<Rightarrow> real_of_int frame_width / 2)"

text \<open>The quotient of line 100, before the clamp; Python raises on a zero divisor.\<close>

definition raw_balance :: "balancer \<Rightarrow> int \<Rightarrow> int \<Rightarrow> py_error + real" where
  "raw_balance st face_x frame_width =
     (let c = center_position st frame_width;
          offset = real_of_int face_x - c
      in if c * sensitivity st = 0 then Inl ZeroDivisionError
         else Inr (offset / (c * sensitivity st)))"

definition calculate_audio_balance :: "balancer \<Rightarrow> int \<Rightarrow> int \<Rightarrow> py_error + real" where
  "calculate_audio_balance st face_x frame_width =
     (case raw_balance st face_x frame_width of
        Inl e \<Rightarrow> Inl e
      | Inr b \<Rightarrow> Inr (- (max (-1) (min 1 b))))"

text \<open>
  The same computation inlined in \<^verbatim>\<open>VekloMenubarApp.track_head\<close> (lines 212-217): the
  centre is always the frame midpoint.
\<close>

definition menubar_balance :: "real \<Rightarrow> int \<Rightarrow> int \<Rightarrow> py_error + real" where
  "menubar_balance sens face_center_x frame_width =
     (let offset = real_of_int face_center_x - real_of_int frame_width / 2
      in if (real_of_int frame_width / 2) * sens = 0 then Inl ZeroDivisionError
         else Inr (- (max (-1) (min 1 (offset / ((real_of_int frame_width / 2) * sens))))))"

subsection \<open>Calibration model\<close>

text \<open>
  \<^verbatim>\<open>get_current_system_balance\<close>: 50 in eqMac mode; otherwise the integer that the
  \<^verbatim>\<open>osascript\<close> query printed, or 50 when the query failed (\<open>None\<close>).
\<close>

definition get_current_system_balance :: "balancer \<Rightarrow> int option \<Rightarrow> int" where
  "get_current_system_balance st reading =
     (if use_eqmac st then 50 else (case reading of Some b \<Rightarrow> b | None \<Rightarrow> 50))"

text \<open>
  \<^verbatim>\<open>calibrate(face_x=None)\<close>; \<open>reading\<close> is what the actuator reports when queried.
\<close>

definition calibrate :: "balancer \<Rightarrow> int option \<Rightarrow> int option \<Rightarrow> balancer" where
  "calibrate st face_x reading =
     (case (case face_x of Some x \<Rightarrow> Some x | None \<Rightarrow> last_face_position st) of
        None \<Rightarrow> st
      | Some x \<Rightarrow> st \<lparr> calibration_center_x := Some x, calibrated := True,
            original_system_balance := Some (get_current_system_balance st reading) \<rparr>)"

text \<open>\<^verbatim>\<open>adjust_sensitivity(increment=0.1)\<close>.\<close>

definition adjust_sensitivity :: "balancer \<Rightarrow> real \<Rightarrow> balancer" where
  "adjust_sensitivity st increment =
     (let s = max (2 / 10) (min 2 (sensitivity st + increment))
      in st \<lparr> sensitivity := (if s > 19 / 10 \<and> increment > 0 then 2 / 10 else s) \<rparr>)"

definition toggle_audio_mode :: "balancer \<Rightarrow> balancer" where
  "toggle_audio_mode st = st \<lparr> use_eqmac := \<not> use_eqmac st \<rparr>"

definition toggle_cartoon_filter :: "balancer \<Rightarrow> balancer" where
  "toggle_cartoon_filter st = st \<lparr> use_cartoon_filter := \<not> use_cartoon_filter st \<rparr>"

subsection \<open>Float rounding\<close>

text \<open>
  The functions that convert a balance to a percentage take the rounding operator of
  the float arithmetic as a parameter: \<open>exact\<close> rounds nothing, \<open>binary64\<close> rounds to
  the nearest IEEE double (ties to even, 53 significant bits, no overflow), which is
  what the Python interpreter does after each float operation.
\<close>

definition exact :: "real \<Rightarrow> real" where
  "exact x = x"

text \<open>The binary exponent of a positive number, searched within the given fuel.\<close>

fun expo :: "nat \<Rightarrow> real \<Rightarrow> int" where
  "expo 0 x = 0"
| "expo (Suc n) x =
     (if 2 \<le> x then expo n (x / 2) + 1
      else if x < 1 then expo n (x * 2) - 1
      else 0)"

definition round_half_even :: "real \<Rightarrow> int" where
  "round_half_even y =
     (let f = \<lfloor>y\<rfloor>; d = y - of_int f
      in if d < 1 / 2 then f
         else if 1 / 2 < d then f + 1
         else if even f then f else f + 1)"

definition binary64 :: "real \<Rightarrow> real" where
  "binary64 x =
     (if x = 0 then 0
      else let e = max (- 1022) (expo 1100 \<bar>x\<bar>);
               u = (if 52 \<le> e then 2 ^ nat (e - 52) else 1 / 2 ^ nat (52 - e))
           in u * of_int (round_half_even (x / u)))"

subsection \<open>The audio actuator\<close>

text \<open>What the control loop does to the outside world.\<close>

datatype effect =
    CameraRelease
  | DestroyAllWindows
  | SetEqmacBalance int
  | SetSystemBalance int

text \<open>Python's \<^verbatim>\<open>int()\<close> of a float truncates toward zero.\<close>

definition py_int :: "real \<Rightarrow> int" where
  "py_int x = (if 0 \<le> x then \<lfloor>x\<rfloor> else \<lceil>x\<rceil>)"

text \<open>Line 110 (and line 288 of the menubar front-end): \<^verbatim>\<open>int((balance + 1) * 50)\<close>.\<close>

definition balance_percentage :: "(real \<Rightarrow> real) \<Rightarrow> real \<Rightarrow> int" where
  "balance_percentage rd balance = py_int (rd (rd (balance + 1) * 50))"

definition set_audio_balance :: "(real \<Rightarrow> real) \<Rightarrow> balancer \<Rightarrow> real \<Rightarrow> effect" where
  "set_audio_balance rd st balance =
     (if use_eqmac st then SetEqmacBalance (balance_percentage rd balance)
      else SetSystemBalance (balance_percentage rd balance))"

text \<open>
  The \<^verbatim>\<open>finally\<close> block of \<^verbatim>\<open>track_head\<close> (lines 381-397): release the camera, close
  the preview windows when the preview is on, then restore the balance.
\<close>

definition balance_normalized :: "(real \<Rightarrow> real) \<Rightarrow> int \<Rightarrow> real" where
  "balance_normalized rd original = rd (rd (real_of_int original / 50) - 1)"

definition teardown :: "(real \<Rightarrow> real) \<Rightarrow> balancer \<Rightarrow> effect list" where
  "teardown rd st =
     [CameraRelease] @ (if show_preview st then [DestroyAllWindows] else []) @
     [case original_system_balance st of
        Some original \<Rightarrow> set_audio_balance rd st (balance_normalized rd original)
      | None \<Rightarrow> set_audio_balance rd st 0]"

subsection \<open>The control loop\<close>

text \<open>A detected face is the box \<open>(x, y, w, h)\<close>; the loop tracks the first box of largest area.\<close>

type_synonym face = "int \<times> int \<times> int \<times> int"

definition area :: "face \<Rightarrow> int" where
  "area f = (case f of (x, y, w, h) \<Rightarrow> w * h)"

fun largest_face :: "face \<Rightarrow> face list \<Rightarrow> face" where
  "largest_face best [] = best"
| "largest_face best (f # fs) =
     (if area best < area f then largest_face f fs else largest_face best fs)"

definition face_center_x :: "face \<Rightarrow> int" where
  "face_center_x f = (case f of (x, y, w, h) \<Rightarrow> x + w div 2)"

text \<open>
  What the preview step meets: an exception of the display calls, or the key code
  \<^verbatim>\<open>cv2.waitKey(1) & 0xFF\<close>.
\<close>

datatype preview_event = PreviewError | KeyPressed int

text \<open>
  What one iteration receives from outside. \<open>lines\<close> are the terminal lines (stripped
  and lowercased) that the input thread handled since the previous iteration, each
  with the actuator reading a calibration would obtain; \<open>interrupted\<close> is the main
  thread clearing \<^verbatim>\<open>running\<close>. Commands of the input thread take effect at iteration
  boundaries.
\<close>

record iter_input =
  lines :: "(string \<times> int option) list"
  interrupted :: bool
  ret :: bool
  detect_raises :: bool
  faces :: "face list"
  current_time :: real
  preview :: preview_event
  key_reading :: "int option"

text \<open>One line of \<^verbatim>\<open>handle_terminal_input\<close> (lines 409-419).\<close>

definition terminal_command :: "balancer \<Rightarrow> string \<times> int option \<Rightarrow> balancer" where
  "terminal_command st l =
     (case l of (line, reading) \<Rightarrow>
        if line = ''q'' then st \<lparr> running := False \<rparr>
        else if line = ''c'' then calibrate st None reading
        else if line = ''s'' then adjust_sensitivity st (1 / 10)
        else if line = ''m'' then toggle_audio_mode st
        else if line = ''f'' then toggle_cartoon_filter st
        else st)"

text \<open>The input thread stops reading once \<^verbatim>\<open>running\<close> is false.\<close>

fun handle_terminal_input :: "balancer \<Rightarrow> (string \<times> int option) list \<Rightarrow> balancer" where
  "handle_terminal_input st [] = st"
| "handle_terminal_input st (l # ls) =
     (if running st then handle_terminal_input (terminal_command st l) ls else st)"

definition between_iterations :: "balancer \<Rightarrow> iter_input \<Rightarrow> balancer" where
  "between_iterations st i =
     (let st1 = handle_terminal_input st (lines i)
      in if interrupted i then st1 \<lparr> running := False \<rparr> else st1)"

datatype exit = Continue | Break | Raised

text \<open>
  Lines 280-299: track the largest face and, when the gate is open, compute the
  balance, invoke the actuator and restart the timer. \<open>Inl\<close> is an exception leaving the
  loop body; the effects carry the time of the iteration.
\<close>

definition update_balance ::
  "(real \<Rightarrow> real) \<Rightarrow> int \<Rightarrow> balancer \<Rightarrow> iter_input \<Rightarrow> balancer + balancer \<times> (real \<times> effect) list" where
  "update_balance rd frame_width st i =
     (case faces i of
        [] \<Rightarrow> Inr (st, [])
      | f # fs \<Rightarrow>
          let fc = face_center_x (largest_face f fs);
              st1 = st \<lparr> last_face_position := Some fc \<rparr>
          in if current_time i - last_balance_update st1 > update_frequency st1 then
               (case calculate_audio_balance st1 fc frame_width of
                  Inl e \<Rightarrow> Inl st1
                | Inr balance \<Rightarrow>
                    Inr (st1 \<lparr> last_balance_update := current_time i \<rparr>,
                         [(current_time i, set_audio_balance rd st1 balance)]))
             else Inr (st1, []))"

text \<open>
  Lines 302-374. The status text reads the local \<^verbatim>\<open>balance\<close>, which is bound exactly
  when a face position is known; any exception in the block turns the preview off.
\<close>

definition preview_step :: "int \<Rightarrow> balancer \<Rightarrow> iter_input \<Rightarrow> exit \<times> balancer" where
  "preview_step frame_width st i =
     (if \<not> show_preview st then (Continue, st)
      else case last_face_position st of
        None \<Rightarrow> (Continue, st \<lparr> show_preview := False \<rparr>)
      | Some p \<Rightarrow>
          (case calculate_audio_balance st p frame_width of
             Inl e \<Rightarrow> (Continue, st \<lparr> show_preview := False \<rparr>)
           | Inr balance \<Rightarrow>
               (case preview i of
                  PreviewError \<Rightarrow> (Continue, st \<lparr> show_preview := False \<rparr>)
                | KeyPressed key \<Rightarrow>
                    if key = 113 then (Break, st \<lparr> running := False \<rparr>)
                    else if key = 99 \<and> faces i \<noteq> [] then
                      (Continue, calibrate st
                         (Some (face_center_x (largest_face (hd (faces i)) (tl (faces i)))))
                         (key_reading i))
                    else if key = 115 then (Continue, adjust_sensitivity st (1 / 10))
                    else if key = 109 then (Continue, toggle_audio_mode st)
                    else if key = 102 then (Continue, toggle_cartoon_filter st)
                    else (Continue, st))))"

text \<open>The body of the \<^verbatim>\<open>while\<close> loop (lines 256-377).\<close>

definition iteration ::
  "(real \<Rightarrow> real) \<Rightarrow> int \<Rightarrow> balancer \<Rightarrow> iter_input \<Rightarrow> exit \<times> balancer \<times> (real \<times> effect) list" where
  "iteration rd frame_width st i =
     (if \<not> ret i then (Break, st, [])
      else if detect_raises i then (Raised, st, [])
      else case update_balance rd frame_width st i of
        Inl st1 \<Rightarrow> (Raised, st1, [])
      | Inr (st1, effs) \<Rightarrow>
          (case preview_step frame_width st1 i of (ex, st2) \<Rightarrow> (ex, st2, effs)))"

text \<open>
  The loop over the inputs of successive iterations. The first component tells whether
  the loop has been left; with the inputs used up and \<^verbatim>\<open>running\<close> still true it has not.
\<close>

fun track_loop ::
  "(real \<Rightarrow> real) \<Rightarrow> int \<Rightarrow> balancer \<Rightarrow> iter_input list \<Rightarrow> bool \<times> balancer \<times> (real \<times> effect) list" where
  "track_loop rd frame_width st [] = (\<not> running st, st, [])"
| "track_loop rd frame_width st (i # is) =
     (let st1 = between_iterations st i
      in if \<not> running st1 then (True, st1, [])
         else case iteration rd frame_width st1 i of
           (Continue, st2, effs) \<Rightarrow>
             (case track_loop rd frame_width st2 is of
                (done, st3, effs') \<Rightarrow> (done, st3, effs @ effs'))
         | (ex, st2, effs) \<Rightarrow> (True, st2, effs))"

text \<open>
  \<^verbatim>\<open>track_head\<close>: \<open>opened\<close> is \<^verbatim>\<open>cap.isOpened()\<close>, \<open>first_frame\<close> the width of the first
  frame when it could be read. The result is the final state and everything done to
  the outside, or \<open>None\<close> while the loop is still running.
\<close>

definition track_head ::
  "(real \<Rightarrow> real) \<Rightarrow> balancer \<Rightarrow> bool \<Rightarrow> int option \<Rightarrow> iter_input list \<Rightarrow> (balancer \<times> effect list) option" where
  "track_head rd st opened first_frame inputs =
     (if \<not> opened then Some (st, [])
      else case first_frame of
        None \<Rightarrow> Some (st, [])
      | Some frame_width \<Rightarrow>
          (case track_loop rd frame_width st inputs of
             (False, st', effs) \<Rightarrow> None
           | (True, st', effs) \<Rightarrow> Some (st', map snd effs @ teardown rd st')))"


text \<open>An iteration input with a frame read, no terminal line and no key (code 255).\<close>

definition frame :: "real \<Rightarrow> face list \<Rightarrow> iter_input" where
  "frame t fs = \<lparr> lines = [], interrupted = False, ret = True, detect_raises = False,
      faces = fs, current_time = t, preview = KeyPressed 255, key_reading = None \<rparr>"

section \<open>Properties of the balance mapper and the calibration model\<close>

subsection \<open>Auxiliary facts\<close>

lemma center_position_calibrate:
  "center_position (calibrate st (Some x) r) w = real_of_int x"
  by (simp add: center_position_def calibrate_def)

lemma sensitivity_calibrate:
  "sensitivity (calibrate st fx r) = sensitivity st"
  by (simp add: calibrate_def split: option.splits)

lemma clamp_mono:
  fixes r1 r2 :: real
  assumes "r1 \<le> r2"
  shows "max (-1) (min 1 r1) \<le> max (-1) (min 1 r2)"
  using assms by (simp add: max_def min_def)

lemma clamp_plateau:
  fixes r1 r2 :: real
  assumes "r1 < r2" and "max (-1) (min 1 r1) = max (-1) (min 1 r2)"
  shows "max (-1) (min 1 r1) = 1 \<or> max (-1) (min 1 r1) = -1"
  using assms by (simp add: max_def min_def split: if_splits)

lemma raw_balance_defined:
  assumes "center_position st w \<noteq> 0" and "sensitivity st \<noteq> 0"
  shows "raw_balance st x w =
     Inr ((real_of_int x - center_position st w) / (center_position st w * sensitivity st))"
  using assms by (simp add: raw_balance_def Let_def)

lemma calculate_defined:
  assumes "center_position st w \<noteq> 0" and "sensitivity st \<noteq> 0"
  shows "calculate_audio_balance st x w =
     Inr (- (max (-1) (min 1
       ((real_of_int x - center_position st w) / (center_position st w * sensitivity st)))))"
  using assms by (simp add: calculate_audio_balance_def raw_balance_defined)

subsection \<open>Range of the mapper\<close>

text \<open>
  Claim C1. Whenever \<^verbatim>\<open>calculate_audio_balance\<close> returns, its result lies in the closed
  interval from -1 to 1, and it is the negation of the raw quotient clamped to that
  interval (the clamp comes before the sign inversion). The same bounds hold for the
  computation inlined in the menubar front-end. Both bounds are attained: with the
  initial state and a frame 640 wide, a face at 0 gives +1 and a face at 640 gives -1.
\<close>

theorem calculate_audio_balance_range:
  "(\<forall>st x w b. calculate_audio_balance st x w = Inr b \<longrightarrow>
       -1 \<le> b \<and> b \<le> 1 \<and>
       (\<exists>r. raw_balance st x w = Inr r \<and> b = - (max (-1) (min 1 r))))
   \<and> (\<forall>s x w b. menubar_balance s x w = Inr b \<longrightarrow> -1 \<le> b \<and> b \<le> 1)
   \<and> calculate_audio_balance (init t0) 0 640 = Inr 1
   \<and> calculate_audio_balance (init t0) 640 640 = Inr (-1)
   \<and> menubar_balance (8 / 10) 0 640 = Inr 1
   \<and> menubar_balance (8 / 10) 640 640 = Inr (-1)"
proof (intro conjI allI impI)
  fix st x w b
  assume h: "calculate_audio_balance st x w = Inr b"
  then obtain r where r: "raw_balance st x w = Inr r" "b = - (max (-1) (min 1 r))"
    by (auto simp: calculate_audio_balance_def split: sum.splits)
  show "-1 \<le> b" using r(2) by simp
  show "b \<le> 1" using r(2) by simp
  show "\<exists>r. raw_balance st x w = Inr r \<and> b = - (max (-1) (min 1 r))"
    using r by blast
next
  fix s :: real and x w :: int and b
  assume "menubar_balance s x w = Inr b"
  then have b: "b = - (max (-1) (min 1 ((real_of_int x - real_of_int w / 2) / ((real_of_int w / 2) * s))))"
    by (simp add: menubar_balance_def Let_def split: if_splits)
  show "-1 \<le> b" using b by simp
  show "b \<le> 1" using b by simp
qed (simp_all add: calculate_audio_balance_def raw_balance_def center_position_def
       init_def menubar_balance_def Let_def)

theorem calculate_audio_balance_range_witness:
  "calculate_audio_balance (init 0) 420 640 = Inr (- (25 / 64))
   \<and> -1 \<le> (- (25 / 64) :: real) \<and> (- (25 / 64) :: real) \<le> 1"
proof -
  have h: "calculate_audio_balance (init 0) 420 640 = Inr (- (25 / 64))"
    by (simp add: calculate_audio_balance_def raw_balance_def center_position_def
         init_def Let_def)
  from calculate_audio_balance_range [of 0] h show ?thesis by blast
qed

subsection \<open>Sensitivity\<close>

text \<open>
  Claim C5. Starting from a sensitivity between 0.2 and 2.0, \<^verbatim>\<open>adjust_sensitivity\<close>
  leaves the sensitivity between 0.2 and 2.0. With \<open>c\<close> the sum clamped to that interval,
  the new value is 0.2 when \<open>c\<close> exceeds 1.9 and the increment is positive, and \<open>c\<close>
  otherwise; a non-positive increment never wraps, and one that would go below the
  floor yields exactly 0.2.
\<close>

theorem adjust_sensitivity_clamped:
  "2 / 10 \<le> sensitivity st \<and> sensitivity st \<le> 2 \<longrightarrow>
     (let c = max (2 / 10) (min 2 (sensitivity st + d));
          s' = sensitivity (adjust_sensitivity st d)
      in 2 / 10 \<le> s' \<and> s' \<le> 2
         \<and> s' = (if c > 19 / 10 \<and> d > 0 then 2 / 10 else c)
         \<and> (d \<le> 0 \<longrightarrow> s' = c)
         \<and> (d \<le> 0 \<and> sensitivity st + d \<le> 2 / 10 \<longrightarrow> s' = 2 / 10))"
  by (simp add: adjust_sensitivity_def Let_def max_def min_def)

theorem adjust_sensitivity_clamped_witness:
  "sensitivity (adjust_sensitivity (init 0) (1 / 10)) = 9 / 10
   \<and> sensitivity (adjust_sensitivity ((init 0) \<lparr> sensitivity := 19 / 10 \<rparr>) (1 / 10)) = 2 / 10
   \<and> sensitivity (adjust_sensitivity (init 0) (- 1)) = 2 / 10"
proof -
  have a: "2 / 10 \<le> sensitivity (init 0) \<and> sensitivity (init 0) \<le> 2"
    by (simp add: init_def)
  have b: "2 / 10 \<le> sensitivity ((init 0) \<lparr> sensitivity := 19 / 10 \<rparr>)
      \<and> sensitivity ((init 0) \<lparr> sensitivity := 19 / 10 \<rparr>) \<le> 2"
    by simp
  from adjust_sensitivity_clamped [of "init 0" "1 / 10"] a
  have 1: "sensitivity (adjust_sensitivity (init 0) (1 / 10)) = 9 / 10"
    by (simp add: Let_def init_def)
  from adjust_sensitivity_clamped [of "(init 0) \<lparr> sensitivity := 19 / 10 \<rparr>" "1 / 10"] b
  have 2: "sensitivity (adjust_sensitivity ((init 0) \<lparr> sensitivity := 19 / 10 \<rparr>) (1 / 10)) = 2 / 10"
    by (simp add: Let_def)
  from adjust_sensitivity_clamped [of "init 0" "- 1"] a
  have 3: "sensitivity (adjust_sensitivity (init 0) (- 1)) = 2 / 10"
    by (simp add: Let_def init_def)
  from 1 2 3 show ?thesis by blast
qed

subsection \<open>Monotonicity\<close>

text \<open>
  Claim C7. For a fixed state whose effective centre is positive and whose sensitivity
  lies between 0.2 and 2.0, and a fixed frame width, the mapper is defined and
  non-increasing in the face position; two different positions give the same balance
  only when that balance is +1 or -1, that is, where the clamp saturates.
\<close>

theorem calculate_audio_balance_antitone:
  assumes c: "0 < center_position st w"
    and s: "2 / 10 \<le> sensitivity st" "sensitivity st \<le> 2"
    and x: "x1 \<le> x2"
  shows "\<exists>b1 b2. calculate_audio_balance st x1 w = Inr b1
           \<and> calculate_audio_balance st x2 w = Inr b2
           \<and> b2 \<le> b1
           \<and> (x1 < x2 \<and> b1 = b2 \<longrightarrow> b1 = 1 \<or> b1 = -1)"
proof -
  let ?c = "center_position st w"
  let ?d = "?c * sensitivity st"
  let ?r1 = "(real_of_int x1 - ?c) / ?d"
  let ?r2 = "(real_of_int x2 - ?c) / ?d"
  have s0: "0 < sensitivity st" using s(1) by simp
  have d: "0 < ?d" using c s0 by simp
  have e1: "calculate_audio_balance st x1 w = Inr (- (max (-1) (min 1 ?r1)))"
    using c s0 by (simp add: calculate_defined)
  have e2: "calculate_audio_balance st x2 w = Inr (- (max (-1) (min 1 ?r2)))"
    using c s0 by (simp add: calculate_defined)
  have le: "?r1 \<le> ?r2"
    using x d by (simp add: divide_right_mono)
  have mono: "- (max (-1) (min 1 ?r2)) \<le> - (max (-1) (min 1 ?r1))"
    using clamp_mono [OF le] by simp
  have plateau: "x1 < x2 \<and> - (max (-1) (min 1 ?r1)) = - (max (-1) (min 1 ?r2))
      \<longrightarrow> - (max (-1) (min 1 ?r1)) = 1 \<or> - (max (-1) (min 1 ?r1)) = -1"
  proof
    assume h: "x1 < x2 \<and> - (max (-1) (min 1 ?r1)) = - (max (-1) (min 1 ?r2))"
    then have lt: "?r1 < ?r2"
      using d by (simp add: divide_strict_right_mono)
    from h have eq: "max (-1) (min 1 ?r1) = max (-1) (min 1 ?r2)" by simp
    from clamp_plateau [OF lt eq]
    show "- (max (-1) (min 1 ?r1)) = 1 \<or> - (max (-1) (min 1 ?r1)) = -1"
      by auto
  qed
  from e1 e2 mono plateau show ?thesis by blast
qed

theorem calculate_audio_balance_antitone_witness:
  "calculate_audio_balance (init 0) 420 640 = Inr (- (25 / 64))
   \<and> calculate_audio_balance (init 0) 520 640 = Inr (- (25 / 32))
   \<and> (- (25 / 32) :: real) \<le> - (25 / 64)"
proof -
  have c: "0 < center_position (init 0) 640"
    by (simp add: center_position_def init_def)
  have s: "2 / 10 \<le> sensitivity (init 0)" "sensitivity (init 0) \<le> 2"
    by (simp_all add: init_def)
  have x: "(420::int) \<le> 520" by simp
  from calculate_audio_balance_antitone [OF c s x]
  obtain b1 b2 where b: "calculate_audio_balance (init 0) 420 640 = Inr b1"
      "calculate_audio_balance (init 0) 520 640 = Inr b2" "b2 \<le> b1"
    by blast
  have v1: "calculate_audio_balance (init 0) 420 640 = Inr (- (25 / 64))"
    by (simp add: calculate_audio_balance_def raw_balance_def center_position_def
         init_def Let_def)
  have v2: "calculate_audio_balance (init 0) 520 640 = Inr (- (25 / 32))"
    by (simp add: calculate_audio_balance_def raw_balance_def center_position_def
         init_def Let_def)
  from b v1 v2 show ?thesis by simp
qed

subsection \<open>The calibrated centre\<close>

text \<open>
  Claim C8. After \<^verbatim>\<open>calibrate(x)\<close> with a positive \<open>x\<close>, the mapper returns exactly 0 for a
  face at \<open>x\<close>, for every frame width and every sensitivity between 0.2 and 2.0.
\<close>

theorem calibrated_center_is_neutral:
  assumes "0 < x" and "2 / 10 \<le> s" and "s \<le> 2"
  shows "calculate_audio_balance ((calibrate st (Some x) r) \<lparr> sensitivity := s \<rparr>) x w = Inr 0"
  using assms
  by (simp add: calculate_audio_balance_def raw_balance_def center_position_def
       calibrate_def Let_def)

theorem calibrated_center_is_neutral_witness:
  "(0::int) < 420 \<and> (2 / 10 :: real) \<le> 8 / 10 \<and> (8 / 10 :: real) \<le> 2
   \<and> calculate_audio_balance ((calibrate (init 0) (Some 420) None) \<lparr> sensitivity := 8 / 10 \<rparr>) 420 640 = Inr 0"
  using calibrated_center_is_neutral [of 420 "8 / 10" "init 0" None 640] by simp

subsection \<open>Worked scenarios\<close>

text \<open>
  Claim C9. With the default sensitivity 0.8 and a frame 640 wide: uncalibrated, a face
  at 420 uses centre 320, the raw quotient is 100 / (320 * 0.8) = 0.390625 and the
  result is -0.390625; after calibrating at 420, a face at 520 has raw quotient
  100 / (420 * 0.8) and the result is -125/420, and a face at 420 gives 0.
\<close>

theorem balance_examples:
  "center_position (init t0) 640 = 320
   \<and> raw_balance (init t0) 420 640 = Inr (100 / (320 * (8 / 10)))
   \<and> raw_balance (init t0) 420 640 = Inr (390625 / 1000000)
   \<and> calculate_audio_balance (init t0) 420 640 = Inr (- (390625 / 1000000))
   \<and> center_position (calibrate (init t0) (Some 420) r) 640 = 420
   \<and> raw_balance (calibrate (init t0) (Some 420) r) 520 640 = Inr (100 / (420 * (8 / 10)))
   \<and> calculate_audio_balance (calibrate (init t0) (Some 420) r) 520 640 = Inr (- (125 / 420))
   \<and> calculate_audio_balance (calibrate (init t0) (Some 420) r) 420 640 = Inr 0"
  by (simp add: calculate_audio_balance_def raw_balance_def center_position_def
       init_def calibrate_def Let_def)

subsection \<open>Partiality\<close>

text \<open>
  Claim C10. The mapper divides by centre times sensitivity without a guard: when the
  effective centre is 0 (after \<^verbatim>\<open>calibrate(0)\<close>, or uncalibrated with frame width 0) the
  call raises \<^verbatim>\<open>ZeroDivisionError\<close>; when the effective centre is not 0 and the
  sensitivity lies between 0.2 and 2.0 the call returns a balance.
\<close>

theorem calculate_audio_balance_partial:
  "(center_position st w = 0 \<longrightarrow> calculate_audio_balance st x w = Inl ZeroDivisionError)
   \<and> calculate_audio_balance (calibrate st (Some 0) r) x w = Inl ZeroDivisionError
   \<and> (\<not> calibrated st \<longrightarrow> calculate_audio_balance st x 0 = Inl ZeroDivisionError)
   \<and> (center_position st w \<noteq> 0 \<and> 2 / 10 \<le> sensitivity st \<and> sensitivity st \<le> 2 \<longrightarrow>
        (\<exists>b. calculate_audio_balance st x w = Inr b \<and> -1 \<le> b \<and> b \<le> 1))"
proof (intro conjI impI)
  assume "center_position st w = 0"
  then show "calculate_audio_balance st x w = Inl ZeroDivisionError"
    by (simp add: calculate_audio_balance_def raw_balance_def Let_def)
next
  show "calculate_audio_balance (calibrate st (Some 0) r) x w = Inl ZeroDivisionError"
    by (simp add: calculate_audio_balance_def raw_balance_def Let_def
         center_position_def calibrate_def)
next
  assume "\<not> calibrated st"
  then show "calculate_audio_balance st x 0 = Inl ZeroDivisionError"
    by (simp add: calculate_audio_balance_def raw_balance_def Let_def center_position_def)
next
  assume h: "center_position st w \<noteq> 0 \<and> 2 / 10 \<le> sensitivity st \<and> sensitivity st \<le> 2"
  then have "sensitivity st \<noteq> 0" by auto
  with h show "\<exists>b. calculate_audio_balance st x w = Inr b \<and> -1 \<le> b \<and> b \<le> 1"
    by (simp add: calculate_defined)
qed

theorem calculate_audio_balance_partial_witness:
  "calculate_audio_balance (calibrate (init 0) (Some 0) None) 100 640 = Inl ZeroDivisionError
   \<and> calculate_audio_balance (init 0) 100 0 = Inl ZeroDivisionError
   \<and> (\<exists>b. calculate_audio_balance (init 0) 100 640 = Inr b)"
proof -
  have u: "\<not> calibrated (init 0)" by (simp add: init_def)
  have d: "center_position (init 0) 640 \<noteq> 0 \<and> 2 / 10 \<le> sensitivity (init 0)
      \<and> sensitivity (init 0) \<le> 2"
    by (simp add: center_position_def init_def)
  from calculate_audio_balance_partial [of "init 0" 640 100 None] u d
    calculate_audio_balance_partial [of "init 0" 0 100 None]
  show ?thesis by blast
qed

section \<open>Properties of the actuator interface and the control loop\<close>

subsection \<open>The timer is touched by the gate only\<close>

lemma calibrate_timer [simp]:
  "last_balance_update (calibrate st fx r) = last_balance_update st"
  "update_frequency (calibrate st fx r) = update_frequency st"
  by (simp_all add: calibrate_def split: option.splits)

lemma adjust_sensitivity_timer [simp]:
  "last_balance_update (adjust_sensitivity st d) = last_balance_update st"
  "update_frequency (adjust_sensitivity st d) = update_frequency st"
  by (simp_all add: adjust_sensitivity_def Let_def)

lemma toggle_timer [simp]:
  "last_balance_update (toggle_audio_mode st) = last_balance_update st"
  "update_frequency (toggle_audio_mode st) = update_frequency st"
  "last_balance_update (toggle_cartoon_filter st) = last_balance_update st"
  "update_frequency (toggle_cartoon_filter st) = update_frequency st"
  by (simp_all add: toggle_audio_mode_def toggle_cartoon_filter_def)

lemma terminal_command_timer [simp]:
  "last_balance_update (terminal_command st l) = last_balance_update st"
  "update_frequency (terminal_command st l) = update_frequency st"
  by (simp_all add: terminal_command_def split: prod.splits)

lemma handle_terminal_input_timer [simp]:
  "last_balance_update (handle_terminal_input st ls) = last_balance_update st"
  "update_frequency (handle_terminal_input st ls) = update_frequency st"
  by (induction ls arbitrary: st) simp_all

lemma between_iterations_timer [simp]:
  "last_balance_update (between_iterations st i) = last_balance_update st"
  "update_frequency (between_iterations st i) = update_frequency st"
  by (simp_all add: between_iterations_def Let_def)




subsection \<open>Spacing of the updates\<close>








subsection \<open>Balance to percentage\<close>





subsection \<open>Capturing the original balance\<close>

text \<open>
  Claim C4 says that only the first successful calibration captures the original
  balance. The code stores the actuator's reading on every successful calibration: in
  system-audio mode, a calibration while the actuator reads 70 followed by one while it
  reads 30 leaves 30 as the original balance.
\<close>

theorem calibrate_recaptures:
  "original_system_balance
      (calibrate (toggle_audio_mode (init 0)) (Some 100) (Some 70)) = Some 70
   \<and> original_system_balance
      (calibrate (calibrate (toggle_audio_mode (init 0)) (Some 100) (Some 70))
         (Some 200) (Some 30)) = Some 30"
  by (simp add: calibrate_def get_current_system_balance_def toggle_audio_mode_def init_def)

section \<open>Leaving the loop\<close>

subsection \<open>Every exit of the running loop reaches the teardown\<close>

text \<open>
  The teardown releases the camera, closes the preview windows when the preview is on,
  and then makes exactly one actuator call. It follows the loop whenever the loop is
  left: the \<^verbatim>\<open>running\<close> flag cleared by a \<^verbatim>\<open>q\<close> line or an interrupt, a frame that
  cannot be read, the \<^verbatim>\<open>q\<close> key, or an exception of the loop body. A start that fails
  before the loop (camera not opened, first frame not read) returns without it.
\<close>

lemma teardown_shape:
  "\<exists>p. teardown rd st =
     CameraRelease # (if show_preview st then [DestroyAllWindows] else []) @
     [if use_eqmac st then SetEqmacBalance p else SetSystemBalance p]"
  by (simp add: teardown_def set_audio_balance_def split: option.splits)

lemma track_head_exit:
  assumes "track_loop rd fw st inputs = (True, st', effs)"
  shows "track_head rd st True (Some fw) inputs = Some (st', map snd effs @ teardown rd st')"
  using assms by (simp add: track_head_def)

lemma track_head_running:
  assumes "track_loop rd fw st inputs = (False, st', effs)"
  shows "track_head rd st True (Some fw) inputs = None"
  using assms by (simp add: track_head_def)

lemma exit_on_cleared_flag:
  assumes "\<not> running (between_iterations st i)"
  shows "track_head rd st True (Some fw) (i # rest) =
     Some (between_iterations st i, teardown rd (between_iterations st i))"
  using assms by (simp add: track_head_def Let_def)

lemma input_thread_stopped:
  assumes "\<not> running st"
  shows "handle_terminal_input st ls = st"
  using assms by (cases ls) simp_all

lemma quit_line_clears_flag:
  assumes "running st" and "lines i = (''q'', r) # ls"
  shows "\<not> running (between_iterations st i)"
  using assms
  by (simp add: between_iterations_def terminal_command_def Let_def input_thread_stopped)

lemma exit_on_break_or_raise:
  assumes "running (between_iterations st i)"
    and "iteration rd fw (between_iterations st i) i = (ex, st', effs)"
    and "ex \<noteq> Continue"
  shows "track_head rd st True (Some fw) (i # rest) =
     Some (st', map snd effs @ teardown rd st')"
  using assms by (cases ex) (simp_all add: track_head_def Let_def)

lemma read_failure_breaks:
  assumes "\<not> ret i"
  shows "iteration rd fw st i = (Break, st, [])"
  using assms by (simp add: iteration_def)

lemma detection_error_raises:
  assumes "ret i" and "detect_raises i"
  shows "iteration rd fw st i = (Raised, st, [])"
  using assms by (simp add: iteration_def)

lemma quit_key_breaks:
  assumes "show_preview st" and "last_face_position st = Some p"
    and "calculate_audio_balance st p fw = Inr b" and "preview i = KeyPressed 113"
  shows "preview_step fw st i = (Break, st \<lparr> running := False \<rparr>)"
  using assms by (simp add: preview_step_def)

lemma track_head_ends_with_teardown:
  assumes "track_head rd st True (Some fw) inputs = Some (st', effs)"
  shows "\<exists>pre. effs = map snd pre @ teardown rd st'
     \<and> pre = snd (snd (track_loop rd fw st inputs))"
proof -
  obtain d st2 effs2 where t: "track_loop rd fw st inputs = (d, st2, effs2)"
    by (cases "track_loop rd fw st inputs") auto
  with assms show ?thesis
    by (cases d) (auto simp: track_head_def)
qed

lemma startup_failure_skips_teardown:
  "track_head rd st False ff inputs = Some (st, [])"
  "track_head rd st True None inputs = Some (st, [])"
  by (simp_all add: track_head_def)

subsection \<open>The restored percentage\<close>

text \<open>
  With exact arithmetic the round trip through \<^verbatim>\<open>(original / 50) - 1\<close> and
  \<^verbatim>\<open>int((balance + 1) * 50)\<close> gives back the captured percentage, and 50 when nothing was
  captured.
\<close>

lemma py_int_of_int: "py_int (real_of_int b) = b"
  by (simp add: py_int_def)

lemma restore_exact: "balance_percentage exact (balance_normalized exact b) = b"
proof -
  have "(real_of_int b / 50 - 1 + 1) * 50 = real_of_int b" by simp
  then show ?thesis
    by (simp add: balance_percentage_def balance_normalized_def exact_def py_int_of_int)
qed

lemma neutral_percentage: "balance_percentage exact 0 = 50" "balance_percentage binary64 0 = 50"
proof -
  show "balance_percentage exact 0 = 50"
    by (simp add: balance_percentage_def exact_def py_int_def)
  show "balance_percentage binary64 0 = 50" by code_simp
qed

lemma teardown_exact:
  "teardown exact st =
     CameraRelease # (if show_preview st then [DestroyAllWindows] else []) @
     [let p = (case original_system_balance st of Some b \<Rightarrow> b | None \<Rightarrow> 50)
      in if use_eqmac st then SetEqmacBalance p else SetSystemBalance p]"
  by (simp add: teardown_def set_audio_balance_def restore_exact neutral_percentage
       split: option.splits)

text \<open>
  Claim C2 says that the teardown restores the captured percentage. In binary64 the
  round trip is followed by a truncation and loses one for some percentages. The run:
  the user switches to system audio (line \<^verbatim>\<open>m\<close>), a face is seen at time 1, the \<^verbatim>\<open>c\<close>
  key calibrates while the actuator reads 57, then the line \<^verbatim>\<open>q\<close> quits. The teardown
  releases the camera, closes the windows and sets the balance to 56: 57 / 50 rounds to
  1.1399999999999999, and after subtracting 1, adding 1 and multiplying by 50 the
  result 56.99999999999999 is truncated.
\<close>

theorem restore_truncates:
  "map_option snd (track_head binary64 (init 0) True (Some 640)
     [(frame 1 [(300, 100, 100, 100)])
        \<lparr> lines := [(''m'', None)], preview := KeyPressed 99, key_reading := Some 57 \<rparr>,
      (frame 2 []) \<lparr> lines := [(''q'', None)] \<rparr>])
   = Some [SetSystemBalance 44, CameraRelease, DestroyAllWindows, SetSystemBalance 56]"
  by code_simp

text \<open>
  The same run restores 70 when the actuator read 70, and restores 57 when the
  arithmetic is exact.
\<close>

lemma restore_70:
  "map_option snd (track_head binary64 (init 0) True (Some 640)
     [(frame 1 [(300, 100, 100, 100)])
        \<lparr> lines := [(''m'', None)], preview := KeyPressed 99, key_reading := Some 70 \<rparr>,
      (frame 2 []) \<lparr> lines := [(''q'', None)] \<rparr>])
   = Some [SetSystemBalance 44, CameraRelease, DestroyAllWindows, SetSystemBalance 70]"
  by code_simp

lemma restore_57_exact:
  "map_option snd (track_head exact (init 0) True (Some 640)
     [(frame 1 [(300, 100, 100, 100)])
        \<lparr> lines := [(''m'', None)], preview := KeyPressed 99, key_reading := Some 57 \<rparr>,
      (frame 2 []) \<lparr> lines := [(''q'', None)] \<rparr>])
   = Some [SetSystemBalance 44, CameraRelease, DestroyAllWindows, SetSystemBalance 57]"
  by code_simp

end
